theory Spec2Isabelle
  imports Complex_Main "HOL-Library.AList" "HOL-Library.Char_ord" "HOL-Library.List_Lexorder"
begin

section \<open>vs-buddy: session tracking, usage aggregation and the usage report\<close>

text \<open>
  A shallow embedding of \<^verbatim>\<open>src/extension.ts\<close>.

  Every \<^verbatim>\<open>number\<close> the extension handles is an integer count of milliseconds
  (\<^verbatim>\<open>Date.getTime()\<close> and sums and differences of such values), so a number is an
  \<^typ>\<open>int\<close>; the doubles of the platform compute these values exactly below \<open>2^53\<close>.
  \<^verbatim>\<open>null\<close> is \<^const>\<open>None\<close>. The only doubles that are not integers are the bar heights of
  the chart; the arithmetic that computes them is left to the platform.
\<close>

subsection \<open>Platform operations on numbers and strings\<close>

text \<open>\<^verbatim>\<open>Math.floor(a / b)\<close> on integers, for a divisor that is not zero.\<close>

definition Math_floor_div :: "int \<Rightarrow> int \<Rightarrow> int" where
  "Math_floor_div a b = a div b"

text \<open>The operator \<^verbatim>\<open>%\<close>: the remainder takes the sign of the dividend.\<close>

definition js_rem :: "int \<Rightarrow> int \<Rightarrow> int" where
  "js_rem a b = sgn a * (\<bar>a\<bar> mod \<bar>b\<bar>)"

text \<open>The decimal digit of a number below ten.\<close>

definition digit_char :: "nat \<Rightarrow> char" where
  "digit_char d = ''0123456789'' ! (d mod 10)"

fun nat_to_string :: "nat \<Rightarrow> string" where
  "nat_to_string n =
     (if n < 10 then [digit_char n] else nat_to_string (n div 10) @ [digit_char (n mod 10)])"

declare nat_to_string.simps [simp del]

text \<open>
  The conversion of an integer-valued number to a string, as a template literal and the
  operator \<^verbatim>\<open>+\<close> on a string both perform it: decimal digits, with a leading minus sign.
\<close>

definition number_to_string :: "int \<Rightarrow> string" where
  "number_to_string n =
     (if n < 0 then CHR ''-'' # nat_to_string (nat (- n)) else nat_to_string (nat n))"

subsection \<open>formatDuration\<close>

text \<open>Lines 76 to 85.\<close>

definition formatDuration :: "int \<Rightarrow> string" where
  "formatDuration milliseconds =
     (let seconds = Math_floor_div milliseconds 1000;
          minutes = Math_floor_div seconds 60;
          hours = Math_floor_div minutes 60;
          remainingMinutes = js_rem minutes 60;
          remainingSeconds = js_rem seconds 60
      in number_to_string hours @ ''h '' @ number_to_string remainingMinutes @ ''m ''
           @ number_to_string remainingSeconds @ ''s'')"

text \<open>Lines 232 to 239: the copy inside the script of the generated document.\<close>

definition formatDuration_webview :: "int \<Rightarrow> string" where
  "formatDuration_webview ms =
     (let seconds = Math_floor_div ms 1000;
          minutes = Math_floor_div seconds 60;
          hours = Math_floor_div minutes 60;
          mins = js_rem minutes 60;
          secs = js_rem seconds 60
      in number_to_string hours @ ''h '' @ number_to_string mins @ ''m ''
           @ number_to_string secs @ ''s'')"

subsection \<open>Data\<close>

text \<open>Lines 5 to 15.\<close>

record UsageSession =
  startTime :: int
  endTime :: "int option"
  date :: string
  duration :: "int option"

record UsageData =
  sessions :: "UsageSession list"
  totalTimeMs :: int

text \<open>
  The host's store \<^verbatim>\<open>vscode.Memento\<close>: what is stored under each key, and the calls of
  \<^verbatim>\<open>update\<close> made so far, oldest first. The extension stores usage data only.
\<close>

record Memento =
  stored :: "string \<rightharpoonup> UsageData"
  updates :: "(string \<times> UsageData) list"

definition Memento_get :: "Memento \<Rightarrow> string \<Rightarrow> UsageData option" where
  "Memento_get g key = stored g key"

definition Memento_update :: "Memento \<Rightarrow> string \<Rightarrow> UsageData \<Rightarrow> Memento" where
  "Memento_update g key v = g\<lparr>stored := (stored g)(key \<mapsto> v), updates := updates g @ [(key, v)]\<rparr>"

text \<open>
  What the extension reads of a \<^verbatim>\<open>Date\<close>: its time value and its ISO string. The clock is
  the host's, so \<^verbatim>\<open>new Date()\<close> is an argument of the operation that evaluates it.
\<close>

record Date =
  getTime :: int
  toISOString :: string

text \<open>The first element of \<^verbatim>\<open>s.split(sep)\<close>: the text before the first separator.\<close>

definition split_first :: "char \<Rightarrow> string \<Rightarrow> string" where
  "split_first sep s = takeWhile (\<lambda>c. c \<noteq> sep) s"

text \<open>Lines 17 and 18: the state of the module.\<close>

record Extension =
  currentSession :: "UsageSession option"
  globalState :: Memento

text \<open>Truthiness of a number that may be null, and \<^verbatim>\<open>x || 0\<close>.\<close>

definition truthy :: "int option \<Rightarrow> bool" where
  "truthy x = (case x of None \<Rightarrow> False | Some v \<Rightarrow> v \<noteq> 0)"

definition or_zero :: "int option \<Rightarrow> int" where
  "or_zero x = (case x of None \<Rightarrow> 0 | Some v \<Rightarrow> if v \<noteq> 0 then v else 0)"

text \<open>A number that may be null as an operand of arithmetic: null counts as 0.\<close>

definition to_number :: "int option \<Rightarrow> int" where
  "to_number x = (case x of None \<Rightarrow> 0 | Some v \<Rightarrow> v)"

subsection \<open>Session tracking\<close>

text \<open>Lines 43 to 51.\<close>

definition startNewSession :: "Date \<Rightarrow> Extension \<Rightarrow> Extension" where
  "startNewSession now ext =
     ext\<lparr>currentSession :=
           Some \<lparr>startTime = getTime now,
                 endTime = None,
                 date = split_first CHR ''T'' (toISOString now),
                 duration = None\<rparr>\<rparr>"

text \<open>Lines 65 to 74.\<close>

definition saveSession :: "UsageSession \<Rightarrow> Memento \<Rightarrow> Memento" where
  "saveSession session g =
     (let usageData =
            (case Memento_get g ''usageData'' of
               Some v \<Rightarrow> v
             | None \<Rightarrow> \<lparr>sessions = [], totalTimeMs = 0\<rparr>);
          usageData = usageData\<lparr>sessions := sessions usageData @ [session]\<rparr>;
          usageData =
            (case duration session of
               Some d \<Rightarrow>
                 if truthy (Some d) then usageData\<lparr>totalTimeMs := totalTimeMs usageData + d\<rparr>
                 else usageData
             | None \<Rightarrow> usageData)
      in Memento_update g ''usageData'' usageData)"

text \<open>
  Lines 55 to 57: the session gets its end and then its duration, the end as it was just
  stored minus the start.
\<close>

definition closeSession :: "Date \<Rightarrow> UsageSession \<Rightarrow> UsageSession" where
  "closeSession now session =
     (let session = session\<lparr>endTime := Some (getTime now)\<rparr>
      in session\<lparr>duration := Some (to_number (endTime session) - startTime session)\<rparr>)"

text \<open>Lines 53 to 63.\<close>

definition endCurrentSession :: "Date \<Rightarrow> Extension \<Rightarrow> Extension" where
  "endCurrentSession now ext =
     (case currentSession ext of
        Some session \<Rightarrow>
          ext\<lparr>globalState := saveSession (closeSession now session) (globalState ext),
              currentSession := None\<rparr>
      | None \<Rightarrow> ext)"

text \<open>
  Lines 20 to 41, without the registration of the commands: the host hands over its store on
  activation and a session starts; deactivation ends the session.
\<close>

definition activate :: "Memento \<Rightarrow> Date \<Rightarrow> Extension \<Rightarrow> Extension" where
  "activate context_globalState now ext = startNewSession now (ext\<lparr>globalState := context_globalState\<rparr>)"

definition deactivate :: "Date \<Rightarrow> Extension \<Rightarrow> Extension" where
  "deactivate now ext = endCurrentSession now ext"

subsection \<open>The usage report\<close>

text \<open>
  A \<^verbatim>\<open>Map\<close> keeps its keys in the order of their first insertion, and \<^verbatim>\<open>set\<close> on a key
  that is present replaces the value where it stands: an association list under
  \<^const>\<open>AList.update\<close>.
\<close>

definition Map_has :: "('k \<times> 'v) list \<Rightarrow> 'k \<Rightarrow> bool" where
  "Map_has m k = (case map_of m k of None \<Rightarrow> False | Some v \<Rightarrow> True)"

definition Map_get :: "('k \<times> 'v) list \<Rightarrow> 'k \<Rightarrow> 'v option" where
  "Map_get m k = map_of m k"

definition Map_set :: "('k \<times> 'v) list \<Rightarrow> 'k \<Rightarrow> 'v \<Rightarrow> ('k \<times> 'v) list" where
  "Map_set m k v = AList.update k v m"

definition Map_keys :: "('k \<times> 'v) list \<Rightarrow> 'k list" where
  "Map_keys m = map fst m"

text \<open>Lines 101 to 107. Pushing onto the array of a key leaves the key where it stands.\<close>

definition sessionsByDate :: "UsageData \<Rightarrow> (string \<times> UsageSession list) list" where
  "sessionsByDate usageData =
     foldl (\<lambda>m session.
              let m = (if \<not> Map_has m (date session) then Map_set m (date session) [] else m)
              in case Map_get m (date session) of
                   Some arr \<Rightarrow> Map_set m (date session) (arr @ [session])
                 | None \<Rightarrow> m)
       [] (sessions usageData)"

text \<open>Lines 110 to 114.\<close>

definition dailyTotals :: "(string \<times> UsageSession list) list \<Rightarrow> (string \<times> int) list" where
  "dailyTotals byDate =
     foldl (\<lambda>totals (date, sessions).
              let totalForDay = foldl (\<lambda>sum session. sum + or_zero (duration session)) 0 sessions
              in Map_set totals date totalForDay)
       [] byDate"

text \<open>
  Line 118. The default order of \<^verbatim>\<open>sort\<close> compares strings by their code units, which for
  the characters of a date is the lexicographic order of \<^typ>\<open>string\<close>.
\<close>

definition sortedDates :: "(string \<times> int) list \<Rightarrow> string list" where
  "sortedDates totals = rev (sort (Map_keys totals))"

text \<open>Lines 123 to 129: one row of the table, with the white space of the template.\<close>

definition tableRow :: "string \<Rightarrow> string \<Rightarrow> nat \<Rightarrow> string" where
  "tableRow date' formattedDuration count =
     [CHR 0x0A] @ ''            <tr>'' @
     [CHR 0x0A] @ ''                <td>'' @ date' @ ''</td>'' @
     [CHR 0x0A] @ ''                <td>'' @ formattedDuration @ ''</td>'' @
     [CHR 0x0A] @ ''                <td>'' @ number_to_string (int count) @ ''</td>'' @
     [CHR 0x0A] @ ''            </tr>'' @
     [CHR 0x0A] @ ''        ''"

text \<open>Lines 117 to 130.\<close>

definition tableRows ::
    "(string \<times> UsageSession list) list \<Rightarrow> (string \<times> int) list \<Rightarrow> string" where
  "tableRows byDate totals =
     foldl (\<lambda>rows date.
              let totalForDay = or_zero (Map_get totals date);
                  formattedDuration = formatDuration totalForDay
              in rows @ tableRow date formattedDuration
                          (case Map_get byDate date of None \<Rightarrow> 0 | Some arr \<Rightarrow> length arr))
       [] (sortedDates totals)"

text \<open>
  The generated document (lines 132 to 244) is a fixed template with three holes; the model
  keeps what fills them: the total (line 187), the rows (line 204) and the data handed to
  the script (line 212; the entries pass through JSON unchanged).
\<close>

record Webview =
  html_totalUsage :: string
  html_tableRows :: string
  script_dailyData :: "(string \<times> int) list"

text \<open>Lines 87 to 245. The report reads the state and changes nothing in it.\<close>

definition showUsageStats :: "Extension \<Rightarrow> Webview" where
  "showUsageStats ext =
     (let usageData =
            (case Memento_get (globalState ext) ''usageData'' of
               Some v \<Rightarrow> v
             | None \<Rightarrow> \<lparr>sessions = [], totalTimeMs = 0\<rparr>);
          byDate = sessionsByDate usageData;
          totals = dailyTotals byDate
      in \<lparr>html_totalUsage = formatDuration (totalTimeMs usageData),
          html_tableRows = tableRows byDate totals,
          script_dailyData = totals\<rparr>)"

subsection \<open>The script of the document\<close>

text \<open>\<^verbatim>\<open>Math.max(...xs)\<close> on integers: negative infinity when there is no argument.\<close>

datatype max_value = NegInfinity | MaxOf int

fun Math_max :: "int list \<Rightarrow> max_value" where
  "Math_max [] = NegInfinity"
| "Math_max (x # xs) = MaxOf (foldl max x xs)"

record 'h bar =
  style_height :: 'h
  style_left :: int
  title :: string

text \<open>
  Lines 210 to 230: the bars appended to the chart, in order. The height of a bar is
  \<^verbatim>\<open>(value / maxValue) * 100\<close>, a division and a multiplication of doubles. That
  arithmetic is the platform's and is the argument \<open>percent\<close>, given the daily total and the
  maximum; the script evaluates it once for each bar. The left offset is a number of pixels.
\<close>

definition renderChart :: "(int \<Rightarrow> max_value \<Rightarrow> 'h) \<Rightarrow> (string \<times> int) list \<Rightarrow> 'h bar list" where
  "renderChart percent dailyData =
     (let maxValue = Math_max (map snd dailyData)
      in map (\<lambda>(index, dayData).
                let date = fst dayData;
                    value = snd dayData;
                    percentage = percent value maxValue
                in \<lparr>style_height = percentage,
                    style_left = int index * 30,
                    title = date @ '': '' @ formatDuration_webview value\<rparr>)
           (enumerate 0 dailyData))"

subsection \<open>Notions of the specification\<close>

text \<open>The duration of a session, an absent one counted as 0.\<close>

definition duration_or_0 :: "UsageSession \<Rightarrow> int" where
  "duration_or_0 s = (case duration s of None \<Rightarrow> 0 | Some d \<Rightarrow> d)"

text \<open>Sessions merged one at a time, in order.\<close>

definition saveSessions :: "UsageSession list \<Rightarrow> Memento \<Rightarrow> Memento" where
  "saveSessions ss g = foldl (\<lambda>g session. saveSession session g) g ss"

text \<open>The sessions of one date, in the order of the log, and their total.\<close>

definition bucket :: "UsageSession list \<Rightarrow> string \<Rightarrow> UsageSession list" where
  "bucket ss d = filter (\<lambda>s. date s = d) ss"

definition dailyTotal :: "UsageSession list \<Rightarrow> string \<Rightarrow> int" where
  "dailyTotal ss d = sum_list (map duration_or_0 (bucket ss d))"

text \<open>The distinct elements of a list, each at its first occurrence.\<close>

definition first_seen :: "'a list \<Rightarrow> 'a list" where
  "first_seen xs = rev (remdups (rev xs))"

text \<open>
  The format named at line 48, \<^verbatim>\<open>YYYY-MM-DD\<close>: what the date part of an ISO string is for
  a year from 0 to 9999, four digits, two digits and two digits.
\<close>

definition pad2 :: "nat \<Rightarrow> string" where
  "pad2 n = [digit_char (n div 10), digit_char (n mod 10)]"

definition pad4 :: "nat \<Rightarrow> string" where
  "pad4 n = pad2 (n div 100) @ pad2 (n mod 100)"

definition iso_date :: "nat \<Rightarrow> nat \<Rightarrow> nat \<Rightarrow> string" where
  "iso_date y m d = pad4 y @ ''-'' @ pad2 m @ ''-'' @ pad2 d"

section \<open>Properties\<close>

subsection \<open>Numbers and strings\<close>

lemma js_rem_nonneg: "0 \<le> a \<Longrightarrow> 0 < b \<Longrightarrow> js_rem a b = a mod b"
  by (cases "a = 0") (simp_all add: js_rem_def)

lemma number_to_string_small:
  "number_to_string 0 = ''0''" "number_to_string 1 = ''1''" "number_to_string 5 = ''5''"
  "number_to_string 59 = ''59''"
  by (simp_all add: number_to_string_def nat_to_string.simps digit_char_def)

subsection \<open>formatDuration\<close>

text \<open>
  C2. For every non-negative number of milliseconds, \<open>formatDuration\<close> returns
  \<open>{hours}h {minutes}m {seconds}s\<close> with hours the floor of \<open>ms / 3600000\<close>, minutes the
  floor of \<open>ms / 60000\<close> modulo 60 and seconds the floor of \<open>ms / 1000\<close> modulo 60; and
  3661000, 0 and 59999 give \<open>1h 1m 1s\<close>, \<open>0h 0m 0s\<close> and \<open>0h 0m 59s\<close>.
\<close>

theorem formatDuration_decomposes:
  "(0 \<le> ms \<longrightarrow>
      formatDuration ms =
        number_to_string (ms div 3600000) @ ''h '' @ number_to_string ((ms div 60000) mod 60)
          @ ''m '' @ number_to_string ((ms div 1000) mod 60) @ ''s'')
   \<and> formatDuration 3661000 = ''1h 1m 1s''
   \<and> formatDuration 0 = ''0h 0m 0s''
   \<and> formatDuration 59999 = ''0h 0m 59s''"
proof -
  have general: "formatDuration ms =
        number_to_string (ms div 3600000) @ ''h '' @ number_to_string ((ms div 60000) mod 60)
          @ ''m '' @ number_to_string ((ms div 1000) mod 60) @ ''s''" if "0 \<le> ms" for ms
  proof -
    have s: "0 \<le> ms div 1000" and m: "0 \<le> ms div 1000 div 60"
      using that by (simp_all add: pos_imp_zdiv_nonneg_iff)
    have m60: "ms div 1000 div 60 = ms div 60000" and h: "ms div 60000 div 60 = ms div 3600000"
      by (simp_all add: zdiv_zmult2_eq [symmetric])
    show ?thesis
      using s m by (simp add: formatDuration_def Let_def Math_floor_div_def js_rem_nonneg m60 h)
  qed
  have "formatDuration 3661000 = ''1h 1m 1s''"
    using general [of 3661000] by (simp add: number_to_string_small)
  moreover have "formatDuration 0 = ''0h 0m 0s''"
    using general [of 0] by (simp add: number_to_string_small)
  moreover have "formatDuration 59999 = ''0h 0m 59s''"
    using general [of 59999] by (simp add: number_to_string_small)
  ultimately show ?thesis using general by blast
qed

theorem formatDuration_decomposes_witness:
  "(0::int) \<le> 5000 \<and> formatDuration 5000 = ''0h 0m 5s''"
  using formatDuration_decomposes [of 5000] by (simp add: number_to_string_small)

text \<open>
  C9. The copy of \<open>formatDuration\<close> inside the script of the generated document returns the
  same string as \<open>formatDuration\<close> itself, for every non-negative number of milliseconds.
\<close>

theorem formatDuration_webview_eq:
  "0 \<le> ms \<Longrightarrow> formatDuration_webview ms = formatDuration ms"
  by (simp add: formatDuration_webview_def formatDuration_def Let_def)

theorem formatDuration_webview_eq_witness:
  "(0::int) \<le> 3661000 \<and> formatDuration_webview 3661000 = formatDuration 3661000
     \<and> formatDuration_webview 3661000 = ''1h 1m 1s''"
  using formatDuration_webview_eq [of 3661000]
  by (simp add: formatDuration_def Let_def Math_floor_div_def js_rem_def number_to_string_small)

subsection \<open>The store and the merge\<close>

lemma Memento_get_update:
  "Memento_get (Memento_update g key v) key' = (if key' = key then Some v else Memento_get g key')"
  by (simp add: Memento_get_def Memento_update_def)

lemma UsageData_update_eq:
  "u\<lparr>sessions := a\<rparr> = \<lparr>sessions = a, totalTimeMs = totalTimeMs u\<rparr>"
  "u\<lparr>sessions := a, totalTimeMs := t\<rparr> = \<lparr>sessions = a, totalTimeMs = t\<rparr>"
  by (cases u; simp)+

text \<open>
  The truthiness test of line 69 skips a duration of 0 as well as an absent one; adding 0
  changes nothing, so the merge adds the duration with an absent one counted as 0.
\<close>

lemma saveSession_eq:
  "saveSession s g =
     Memento_update g ''usageData''
       (case Memento_get g ''usageData'' of
          Some u \<Rightarrow> \<lparr>sessions = sessions u @ [s], totalTimeMs = totalTimeMs u + duration_or_0 s\<rparr>
        | None \<Rightarrow> \<lparr>sessions = [s], totalTimeMs = duration_or_0 s\<rparr>)"
  by (simp add: saveSession_def Let_def truthy_def duration_or_0_def UsageData_update_eq
        split: option.splits)

lemma saveSessions_get:
  "Memento_get g ''usageData'' = Some u \<Longrightarrow>
   Memento_get (saveSessions ss g) ''usageData'' =
     Some \<lparr>sessions = sessions u @ ss, totalTimeMs = totalTimeMs u + sum_list (map duration_or_0 ss)\<rparr>"
proof (induction ss arbitrary: g u)
  case Nil
  then show ?case by (simp add: saveSessions_def)
next
  case (Cons s ss)
  have "Memento_get (saveSession s g) ''usageData'' =
          Some \<lparr>sessions = sessions u @ [s], totalTimeMs = totalTimeMs u + duration_or_0 s\<rparr>"
    using Cons.prems by (simp add: saveSession_eq Memento_get_update)
  from Cons.IH [OF this] show ?case
    by (simp add: saveSessions_def add.assoc)
qed

text \<open>
  C1. Whatever sessions are merged one at a time into the empty log, the stored log then
  holds exactly these sessions, in order, and its \<open>totalTimeMs\<close> is the sum of their
  durations, an absent duration counted as 0. This holds for every sequence, so after each
  single merge as well.
\<close>

theorem totalTimeMs_is_sum:
  "Memento_get g ''usageData'' = Some \<lparr>sessions = [], totalTimeMs = 0\<rparr> \<Longrightarrow>
   Memento_get (saveSessions ss g) ''usageData'' =
     Some \<lparr>sessions = ss, totalTimeMs = sum_list (map duration_or_0 ss)\<rparr>"
  using saveSessions_get [of g "\<lparr>sessions = [], totalTimeMs = 0\<rparr>" ss] by simp

theorem totalTimeMs_is_sum_witness:
  "Memento_get \<lparr>stored = [''usageData'' \<mapsto> \<lparr>sessions = [], totalTimeMs = 0\<rparr>], updates = []\<rparr> ''usageData''
     = Some \<lparr>sessions = [], totalTimeMs = 0\<rparr>
   \<and> Memento_get
        (saveSessions
           [\<lparr>startTime = 0, endTime = Some 5000, date = ''2024-01-01'', duration = Some 5000\<rparr>,
            \<lparr>startTime = 7000, endTime = None, date = ''2024-01-01'', duration = None\<rparr>,
            \<lparr>startTime = 9000, endTime = Some 9000, date = ''2024-01-02'', duration = Some 0\<rparr>]
           \<lparr>stored = [''usageData'' \<mapsto> \<lparr>sessions = [], totalTimeMs = 0\<rparr>], updates = []\<rparr>)
        ''usageData''
     = Some \<lparr>sessions =
                [\<lparr>startTime = 0, endTime = Some 5000, date = ''2024-01-01'', duration = Some 5000\<rparr>,
                 \<lparr>startTime = 7000, endTime = None, date = ''2024-01-01'', duration = None\<rparr>,
                 \<lparr>startTime = 9000, endTime = Some 9000, date = ''2024-01-02'', duration = Some 0\<rparr>],
              totalTimeMs = 5000\<rparr>"
  using totalTimeMs_is_sum
    [of "\<lparr>stored = [''usageData'' \<mapsto> \<lparr>sessions = [], totalTimeMs = 0\<rparr>], updates = []\<rparr>"
        "[\<lparr>startTime = 0, endTime = Some 5000, date = ''2024-01-01'', duration = Some 5000\<rparr>,
          \<lparr>startTime = 7000, endTime = None, date = ''2024-01-01'', duration = None\<rparr>,
          \<lparr>startTime = 9000, endTime = Some 9000, date = ''2024-01-02'', duration = Some 0\<rparr>]"]
  by (simp add: Memento_get_def duration_or_0_def)

subsection \<open>Session tracking\<close>

lemma closeSession_eq:
  "closeSession now s = s\<lparr>endTime := Some (getTime now), duration := Some (getTime now - startTime s)\<rparr>"
  by (simp add: closeSession_def Let_def to_number_def)

text \<open>
  C4. Closing an open session sets its end to the current instant and its duration to the
  end minus the start, so the session is closed: both are present, the duration is the
  difference, and it is not negative when the end is not before the start. This is the
  session that \<open>endCurrentSession\<close> hands to \<open>saveSession\<close>.
\<close>

theorem closeSession_closes:
  "currentSession ext = Some s \<Longrightarrow> endTime s = None \<Longrightarrow>
     endTime (closeSession now s) = Some (getTime now)
   \<and> duration (closeSession now s) = Some (getTime now - startTime s)
   \<and> startTime (closeSession now s) = startTime s
   \<and> date (closeSession now s) = date s
   \<and> (startTime s \<le> getTime now \<longrightarrow> 0 \<le> getTime now - startTime s)
   \<and> endCurrentSession now ext =
         ext\<lparr>globalState := saveSession (closeSession now s) (globalState ext),
             currentSession := None\<rparr>"
  by (simp add: closeSession_eq endCurrentSession_def)

theorem closeSession_closes_witness:
  "currentSession
     \<lparr>currentSession =
        Some \<lparr>startTime = 1704067200000, endTime = None, date = ''2024-01-01'', duration = None\<rparr>,
      globalState = \<lparr>stored = Map.empty, updates = []\<rparr>\<rparr>
     = Some \<lparr>startTime = 1704067200000, endTime = None, date = ''2024-01-01'', duration = None\<rparr>
   \<and> endTime \<lparr>startTime = 1704067200000, endTime = None, date = ''2024-01-01'', duration = None\<rparr> = None
   \<and> closeSession \<lparr>getTime = 1704067205000, toISOString = ''2024-01-01T00:00:05.000Z''\<rparr>
        \<lparr>startTime = 1704067200000, endTime = None, date = ''2024-01-01'', duration = None\<rparr>
     = \<lparr>startTime = 1704067200000, endTime = Some 1704067205000, date = ''2024-01-01'',
        duration = Some 5000\<rparr>
   \<and> Memento_get
        (globalState
          (endCurrentSession \<lparr>getTime = 1704067205000, toISOString = ''2024-01-01T00:00:05.000Z''\<rparr>
            \<lparr>currentSession =
               Some \<lparr>startTime = 1704067200000, endTime = None, date = ''2024-01-01'', duration = None\<rparr>,
             globalState = \<lparr>stored = Map.empty, updates = []\<rparr>\<rparr>))
        ''usageData''
     = Some \<lparr>sessions =
                [\<lparr>startTime = 1704067200000, endTime = Some 1704067205000, date = ''2024-01-01'',
                   duration = Some 5000\<rparr>],
              totalTimeMs = 5000\<rparr>"
  using closeSession_closes
    [of "\<lparr>currentSession =
            Some \<lparr>startTime = 1704067200000, endTime = None, date = ''2024-01-01'', duration = None\<rparr>,
          globalState = \<lparr>stored = Map.empty, updates = []\<rparr>\<rparr>"
        "\<lparr>startTime = 1704067200000, endTime = None, date = ''2024-01-01'', duration = None\<rparr>"
        "\<lparr>getTime = 1704067205000, toISOString = ''2024-01-01T00:00:05.000Z''\<rparr>"]
  by (simp add: closeSession_eq saveSession_eq duration_or_0_def Memento_get_def Memento_update_def)

text \<open>
  C5. The module holds at most one session (\<open>currentSession\<close> is one optional value), and
  starting a session while one is open discards the open one without a trace: the new open
  session takes its place, the store is not touched, and the state is the one reached
  without the discarded session, so that what is persisted later never holds its data.
\<close>

theorem startNewSession_replaces:
  "currentSession (startNewSession now ext) =
      Some \<lparr>startTime = getTime now, endTime = None,
            date = split_first CHR ''T'' (toISOString now), duration = None\<rparr>
   \<and> globalState (startNewSession now ext) = globalState ext
   \<and> startNewSession now (ext\<lparr>currentSession := Some s\<rparr>) = startNewSession now (ext\<lparr>currentSession := None\<rparr>)
   \<and> startNewSession now (startNewSession before ext) = startNewSession now ext
   \<and> endCurrentSession later (startNewSession now (startNewSession before ext)) =
         ext\<lparr>globalState :=
               saveSession
                 \<lparr>startTime = getTime now, endTime = Some (getTime later),
                   date = split_first CHR ''T'' (toISOString now),
                   duration = Some (getTime later - getTime now)\<rparr>
                 (globalState ext),
             currentSession := None\<rparr>"
  by (simp add: startNewSession_def endCurrentSession_def closeSession_eq)

text \<open>
  C10. Ending the session when none is open changes nothing: the state, and with it the
  stored log and the list of writes to the store, stays as it is. Ending a session leaves
  none open, so a second end in a row is such a call, and after the two calls the log holds
  one new session and the store has seen one write.
\<close>

theorem endCurrentSession_without_session:
  "(currentSession ext = None \<longrightarrow> endCurrentSession now ext = ext)
   \<and> currentSession (endCurrentSession now ext) = None
   \<and> endCurrentSession later (endCurrentSession now ext) = endCurrentSession now ext
   \<and> (currentSession ext = Some s \<longrightarrow> Memento_get (globalState ext) ''usageData'' = Some u \<longrightarrow>
        Memento_get (globalState (endCurrentSession later (endCurrentSession now ext))) ''usageData''
          = Some \<lparr>sessions = sessions u @ [closeSession now s],
                  totalTimeMs = totalTimeMs u + (getTime now - startTime s)\<rparr>
        \<and> updates (globalState (endCurrentSession later (endCurrentSession now ext)))
          = updates (globalState ext) @
              [(''usageData'', \<lparr>sessions = sessions u @ [closeSession now s],
                  totalTimeMs = totalTimeMs u + (getTime now - startTime s)\<rparr>)])"
  by (auto simp add: endCurrentSession_def saveSession_eq Memento_get_update duration_or_0_def
      closeSession_eq Memento_update_def Memento_get_def split: option.splits)

theorem endCurrentSession_without_session_witness:
  "endCurrentSession \<lparr>getTime = 9000, toISOString = ''1970-01-01T00:00:09.000Z''\<rparr>
     \<lparr>currentSession = None,
      globalState =
        \<lparr>stored = [''usageData'' \<mapsto> \<lparr>sessions = [], totalTimeMs = 0\<rparr>], updates = []\<rparr>\<rparr>
     = \<lparr>currentSession = None,
        globalState =
          \<lparr>stored = [''usageData'' \<mapsto> \<lparr>sessions = [], totalTimeMs = 0\<rparr>], updates = []\<rparr>\<rparr>
   \<and> updates (globalState
        (endCurrentSession \<lparr>getTime = 9000, toISOString = ''1970-01-01T00:00:09.000Z''\<rparr>
          (endCurrentSession \<lparr>getTime = 5000, toISOString = ''1970-01-01T00:00:05.000Z''\<rparr>
            \<lparr>currentSession =
               Some \<lparr>startTime = 1000, endTime = None, date = ''1970-01-01'', duration = None\<rparr>,
             globalState =
               \<lparr>stored = [''usageData'' \<mapsto> \<lparr>sessions = [], totalTimeMs = 0\<rparr>], updates = []\<rparr>\<rparr>)))
     = [(''usageData'',
         \<lparr>sessions =
            [\<lparr>startTime = 1000, endTime = Some 5000, date = ''1970-01-01'', duration = Some 4000\<rparr>],
          totalTimeMs = 4000\<rparr>)]"
  using endCurrentSession_without_session
    [of "\<lparr>currentSession = None,
          globalState =
            \<lparr>stored = [''usageData'' \<mapsto> \<lparr>sessions = [], totalTimeMs = 0\<rparr>], updates = []\<rparr>\<rparr>"
        "\<lparr>getTime = 9000, toISOString = ''1970-01-01T00:00:09.000Z''\<rparr>"]
    endCurrentSession_without_session
    [of "\<lparr>currentSession =
            Some \<lparr>startTime = 1000, endTime = None, date = ''1970-01-01'', duration = None\<rparr>,
          globalState =
            \<lparr>stored = [''usageData'' \<mapsto> \<lparr>sessions = [], totalTimeMs = 0\<rparr>], updates = []\<rparr>\<rparr>"
        "\<lparr>getTime = 5000, toISOString = ''1970-01-01T00:00:05.000Z''\<rparr>"
        "\<lparr>getTime = 9000, toISOString = ''1970-01-01T00:00:09.000Z''\<rparr>"
        "\<lparr>startTime = 1000, endTime = None, date = ''1970-01-01'', duration = None\<rparr>"
        "\<lparr>sessions = [], totalTimeMs = 0\<rparr>"]
  by (simp add: Memento_get_def Memento_update_def closeSession_eq endCurrentSession_def
      saveSession_eq duration_or_0_def)

subsection \<open>Grouping by date\<close>

lemma first_seen_snoc:
  "first_seen (xs @ [x]) = (if x \<in> set xs then first_seen xs else first_seen xs @ [x])"
  by (simp add: first_seen_def)

lemma first_seen_Nil: "first_seen [] = []"
  by (simp add: first_seen_def)

lemma distinct_first_seen: "distinct (first_seen xs)"
  by (simp add: first_seen_def)

lemma set_first_seen: "set (first_seen xs) = set xs"
  by (simp add: first_seen_def)

lemma update_fresh: "k \<notin> fst ` set al \<Longrightarrow> AList.update k v al = al @ [(k, v)]"
  by (induction al) auto

lemma update_tabulated:
  "distinct ds \<Longrightarrow> k \<in> set ds \<Longrightarrow>
   AList.update k v (map (\<lambda>d. (d, f d)) ds) = map (\<lambda>d. (d, if d = k then v else f d)) ds"
  by (induction ds) auto

lemma map_of_tabulated: "map_of (map (\<lambda>d. (d, f d)) ds) k = (if k \<in> set ds then Some (f k) else None)"
  by (induction ds) auto

lemma group_step:
  "(let m = (if \<not> Map_has m d then Map_set m d [] else m)
    in case Map_get m d of Some arr \<Rightarrow> Map_set m d (arr @ [s]) | None \<Rightarrow> m)
   = AList.update d (case map_of m d of None \<Rightarrow> [s] | Some arr \<Rightarrow> arr @ [s]) m"
  by (simp add: Map_has_def Map_get_def Map_set_def Let_def update_conv' split: option.splits)

lemma sessionsByDate_tabulated:
  "sessionsByDate \<lparr>sessions = ss, totalTimeMs = t\<rparr> = map (\<lambda>d. (d, bucket ss d)) (first_seen (map date ss))"
proof (induction ss rule: rev_induct)
  case Nil
  show ?case by (simp add: sessionsByDate_def first_seen_Nil)
next
  case (snoc s ss)
  let ?G = "map (\<lambda>d. (d, bucket ss d)) (first_seen (map date ss))"
  have step: "sessionsByDate \<lparr>sessions = ss @ [s], totalTimeMs = t\<rparr> =
      AList.update (date s) (case map_of ?G (date s) of None \<Rightarrow> [s] | Some arr \<Rightarrow> arr @ [s]) ?G"
    using snoc.IH by (simp add: sessionsByDate_def group_step)
  show ?case
  proof (cases "date s \<in> date ` set ss")
    case True
    then have "sessionsByDate \<lparr>sessions = ss @ [s], totalTimeMs = t\<rparr> =
        map (\<lambda>d. (d, if d = date s then bucket ss (date s) @ [s] else bucket ss d)) (first_seen (map date ss))"
      unfolding step
      by (simp add: map_of_tabulated set_first_seen update_tabulated distinct_first_seen)
    also have "\<dots> = map (\<lambda>d. (d, bucket (ss @ [s]) d)) (first_seen (map date ss))"
      by (simp add: bucket_def)
    finally show ?thesis using True by (simp add: first_seen_snoc)
  next
    case False
    then have "sessionsByDate \<lparr>sessions = ss @ [s], totalTimeMs = t\<rparr> = ?G @ [(date s, [s])]"
      unfolding step
      by (simp add: map_of_tabulated set_first_seen update_fresh image_image)
    moreover have other: "date x \<noteq> date s" if "x \<in> set ss" for x
      using False that by (metis image_eqI)
    then have "bucket (ss @ [s]) (date s) = [s]"
      by (simp add: bucket_def filter_empty_conv)
    moreover have "map (\<lambda>d. (d, bucket (ss @ [s]) d)) (first_seen (map date ss)) = ?G"
      using False by (auto simp: bucket_def set_first_seen)
    ultimately show ?thesis using False by (simp add: first_seen_snoc)
  qed
qed

lemma foldl_add: "foldl (\<lambda>sum session. sum + f session) a ss = a + sum_list (map f ss)" for a :: int
  by (induction ss arbitrary: a) simp_all

lemma or_zero_duration: "or_zero (duration s) = duration_or_0 s"
  by (simp add: or_zero_def duration_or_0_def split: option.splits)

lemma or_zero_Some: "or_zero (Some v) = v"
  by (simp add: or_zero_def)

lemma dailyTotals_fold:
  "distinct (map fst xs) \<Longrightarrow> fst ` set acc \<inter> fst ` set xs = {} \<Longrightarrow>
   foldl (\<lambda>totals (d, ss). Map_set totals d (g ss)) acc xs = acc @ map (\<lambda>(d, ss). (d, g ss)) xs"
proof (induction xs arbitrary: acc)
  case Nil
  show ?case by simp
next
  case (Cons x xs)
  obtain d ss where x: "x = (d, ss)" by (cases x)
  have fresh: "d \<notin> fst ` set acc" using Cons.prems(2) by (auto simp: x)
  have "fst ` set (acc @ [(d, g ss)]) \<inter> fst ` set xs = {}"
    using Cons.prems by (auto simp: x)
  with Cons.IH [of "acc @ [(d, g ss)]"] Cons.prems(1) show ?case
    by (simp add: x Map_set_def update_fresh [OF fresh])
qed

lemma dailyTotals_tabulated:
  "dailyTotals (sessionsByDate \<lparr>sessions = ss, totalTimeMs = t\<rparr>) =
     map (\<lambda>d. (d, dailyTotal ss d)) (first_seen (map date ss))"
proof -
  have "dailyTotals (map (\<lambda>d. (d, bucket ss d)) (first_seen (map date ss))) =
        [] @ map (\<lambda>(d, b). (d, sum_list (map duration_or_0 b))) (map (\<lambda>d. (d, bucket ss d)) (first_seen (map date ss)))"
    unfolding dailyTotals_def Let_def foldl_add or_zero_duration
    by (subst dailyTotals_fold [where g = "\<lambda>b. 0 + sum_list (map duration_or_0 b)"])
       (simp_all add: comp_def distinct_first_seen)
  then show ?thesis
    by (simp add: sessionsByDate_tabulated dailyTotal_def comp_def)
qed


lemma sessionsByDate_eq:
  "sessionsByDate u = map (\<lambda>d. (d, bucket (sessions u) d)) (first_seen (map date (sessions u)))"
  by (cases u) (simp add: sessionsByDate_tabulated)

lemma dailyTotals_eq:
  "dailyTotals (sessionsByDate u) =
     map (\<lambda>d. (d, dailyTotal (sessions u) d)) (first_seen (map date (sessions u)))"
  by (cases u) (simp add: dailyTotals_tabulated)

lemma Map_get_sessionsByDate:
  "Map_get (sessionsByDate u) d =
     (if d \<in> date ` set (sessions u) then Some (bucket (sessions u) d) else None)"
  by (simp add: Map_get_def sessionsByDate_eq map_of_tabulated set_first_seen)

lemma Map_get_dailyTotals:
  "Map_get (dailyTotals (sessionsByDate u)) d =
     (if d \<in> date ` set (sessions u) then Some (dailyTotal (sessions u) d) else None)"
  by (simp add: Map_get_def dailyTotals_eq map_of_tabulated set_first_seen)

lemma count_key: "distinct ds \<Longrightarrow> length (filter (\<lambda>d. k = d) ds) = (if k \<in> set ds then 1 else 0)"
  by (induction ds) auto

lemma buckets_holding:
  "length (filter (\<lambda>(d, b). s \<in> set b) (sessionsByDate u)) = (if s \<in> set (sessions u) then 1 else 0)"
proof -
  have "filter (\<lambda>(d, b). s \<in> set b) (sessionsByDate u) =
        map (\<lambda>d. (d, bucket (sessions u) d))
          (filter (\<lambda>d. s \<in> set (sessions u) \<and> date s = d) (first_seen (map date (sessions u))))"
    by (simp add: sessionsByDate_eq filter_map comp_def bucket_def)
  then show ?thesis
    by (auto simp: count_key distinct_first_seen set_first_seen)
qed

text \<open>
  C3. Grouping the sessions of a log by date is a partition keyed by the date of each
  session: the bucket of a date holds exactly the sessions of that date, in the order of the
  log; the keys are distinct and every session of the log is in exactly one bucket; and the
  daily total of a date is the sum of the durations of its bucket, an absent duration
  counted as 0.
\<close>

theorem sessionsByDate_partition:
  "sessionsByDate u = map (\<lambda>d. (d, bucket (sessions u) d)) (first_seen (map date (sessions u)))
   \<and> Map_get (sessionsByDate u) d =
       (if d \<in> date ` set (sessions u) then Some (filter (\<lambda>s. date s = d) (sessions u)) else None)
   \<and> distinct (Map_keys (sessionsByDate u))
   \<and> length (filter (\<lambda>(d, b). s \<in> set b) (sessionsByDate u)) = (if s \<in> set (sessions u) then 1 else 0)
   \<and> dailyTotals (sessionsByDate u) =
       map (\<lambda>(d, b). (d, sum_list (map duration_or_0 b))) (sessionsByDate u)
   \<and> Map_get (dailyTotals (sessionsByDate u)) d =
       (if d \<in> date ` set (sessions u)
        then Some (sum_list (map duration_or_0 (filter (\<lambda>s. date s = d) (sessions u)))) else None)"
proof -
  have "distinct (Map_keys (sessionsByDate u))"
    by (simp add: sessionsByDate_eq Map_keys_def distinct_first_seen comp_def)
  moreover have "dailyTotals (sessionsByDate u) =
       map (\<lambda>(d, b). (d, sum_list (map duration_or_0 b))) (sessionsByDate u)"
    unfolding dailyTotals_eq by (simp add: sessionsByDate_eq dailyTotal_def)
  ultimately show ?thesis
    using sessionsByDate_eq [of u] Map_get_sessionsByDate [of u d] Map_get_dailyTotals [of u d]
      buckets_holding [of s u]
    unfolding bucket_def dailyTotal_def by simp
qed

theorem sessionsByDate_partition_witness:
  "sessionsByDate
     \<lparr>sessions =
        [\<lparr>startTime = 0, endTime = Some 1000, date = ''2024-01-01'', duration = Some 1000\<rparr>,
         \<lparr>startTime = 90000000, endTime = Some 90002000, date = ''2024-01-02'', duration = Some 2000\<rparr>,
         \<lparr>startTime = 5000, endTime = Some 7000, date = ''2024-01-01'', duration = Some 2000\<rparr>],
      totalTimeMs = 5000\<rparr>
     = [(''2024-01-01'',
         [\<lparr>startTime = 0, endTime = Some 1000, date = ''2024-01-01'', duration = Some 1000\<rparr>,
          \<lparr>startTime = 5000, endTime = Some 7000, date = ''2024-01-01'', duration = Some 2000\<rparr>]),
        (''2024-01-02'',
         [\<lparr>startTime = 90000000, endTime = Some 90002000, date = ''2024-01-02'', duration = Some 2000\<rparr>])]
   \<and> dailyTotals
        (sessionsByDate
          \<lparr>sessions =
             [\<lparr>startTime = 0, endTime = Some 1000, date = ''2024-01-01'', duration = Some 1000\<rparr>,
              \<lparr>startTime = 90000000, endTime = Some 90002000, date = ''2024-01-02'', duration = Some 2000\<rparr>,
              \<lparr>startTime = 5000, endTime = Some 7000, date = ''2024-01-01'', duration = Some 2000\<rparr>],
           totalTimeMs = 5000\<rparr>)
     = [(''2024-01-01'', 3000), (''2024-01-02'', 2000)]"
proof -
  let ?u = "\<lparr>sessions =
        [\<lparr>startTime = 0, endTime = Some 1000, date = ''2024-01-01'', duration = Some 1000\<rparr>,
         \<lparr>startTime = 90000000, endTime = Some 90002000, date = ''2024-01-02'', duration = Some 2000\<rparr>,
         \<lparr>startTime = 5000, endTime = Some 7000, date = ''2024-01-01'', duration = Some 2000\<rparr>],
      totalTimeMs = 5000\<rparr>"
  have groups: "sessionsByDate ?u
     = [(''2024-01-01'',
         [\<lparr>startTime = 0, endTime = Some 1000, date = ''2024-01-01'', duration = Some 1000\<rparr>,
          \<lparr>startTime = 5000, endTime = Some 7000, date = ''2024-01-01'', duration = Some 2000\<rparr>]),
        (''2024-01-02'',
         [\<lparr>startTime = 90000000, endTime = Some 90002000, date = ''2024-01-02'', duration = Some 2000\<rparr>])]"
    by code_simp
  from sessionsByDate_partition [of ?u "''2024-01-01''"
      "\<lparr>startTime = 0, endTime = Some 1000, date = ''2024-01-01'', duration = Some 1000\<rparr>"]
  have "dailyTotals (sessionsByDate ?u) =
       map (\<lambda>(d, b). (d, sum_list (map duration_or_0 b))) (sessionsByDate ?u)"
    by (elim conjE)
  then show ?thesis
    by (simp add: groups duration_or_0_def)
qed

subsection \<open>The order of dates\<close>

lemma of_char_digit: "a < 10 \<Longrightarrow> (of_char (digit_char a) :: nat) = 48 + a"
proof -
  assume "a < 10"
  then consider "a = 0" | "a = 1" | "a = 2" | "a = 3" | "a = 4" | "a = 5" | "a = 6" | "a = 7"
    | "a = 8" | "a = 9"
    by atomize_elim arith
  then show ?thesis
    by cases (simp_all add: digit_char_def)
qed

lemma digit_char_less: "a < 10 \<Longrightarrow> b < 10 \<Longrightarrow> (digit_char a < digit_char b) = (a < b)"
  by (simp add: less_char_def of_char_digit)

lemma digit_char_eq: "a < 10 \<Longrightarrow> b < 10 \<Longrightarrow> (digit_char a = digit_char b) = (a = b)"
  by (metis of_char_digit add_left_cancel)

lemma two_digits_less:
  "r < 10 \<Longrightarrow> r' < 10 \<Longrightarrow> (q < q' \<or> q = q' \<and> r < r') = (10 * q + r < 10 * q' + r')"
  for q r q' r' :: nat
  by arith

lemma div_mod_10_less:
  "(m div 10 < n div 10 \<or> m div 10 = n div 10 \<and> m mod 10 < n mod 10) = (m < n)" for m n :: nat
  using two_digits_less [of "m mod 10" "n mod 10" "m div 10" "n div 10"] by simp

lemma div_mod_10_eq:
  "(m div 10 = n div 10 \<and> m mod 10 = n mod 10) = (m = n)" for m n :: nat
  by (metis div_mult_mod_eq)

lemma two_pairs_less:
  "r < 100 \<Longrightarrow> r' < 100 \<Longrightarrow> (q < q' \<or> q = q' \<and> r < r') = (100 * q + r < 100 * q' + r')"
  for q r q' r' :: nat
  by arith

lemma div_mod_100_less:
  "(m div 100 < n div 100 \<or> m div 100 = n div 100 \<and> m mod 100 < n mod 100) = (m < n)" for m n :: nat
  using two_pairs_less [of "m mod 100" "n mod 100" "m div 100" "n div 100"] by simp

lemma div_mod_100_eq:
  "(m div 100 = n div 100 \<and> m mod 100 = n mod 100) = (m = n)" for m n :: nat
  by (metis div_mult_mod_eq)

lemma pad2_less: "m < 100 \<Longrightarrow> n < 100 \<Longrightarrow> (pad2 m < pad2 n) = (m < n)"
proof -
  assume "m < 100" "n < 100"
  then have "m div 10 < 10" "n div 10 < 10" "m mod 10 < 10" "n mod 10 < 10" by simp_all
  then have "(pad2 m < pad2 n) =
      (m div 10 < n div 10 \<or> m div 10 = n div 10 \<and> m mod 10 < n mod 10)"
    by (simp add: pad2_def digit_char_less digit_char_eq)
  then show ?thesis by (simp only: div_mod_10_less)
qed

lemma pad2_eq: "m < 100 \<Longrightarrow> n < 100 \<Longrightarrow> (pad2 m = pad2 n) = (m = n)"
proof -
  assume "m < 100" "n < 100"
  then have "m div 10 < 10" "n div 10 < 10" "m mod 10 < 10" "n mod 10 < 10" by simp_all
  then have "(pad2 m = pad2 n) = (m div 10 = n div 10 \<and> m mod 10 = n mod 10)"
    by (simp add: pad2_def digit_char_eq)
  then show ?thesis by (simp only: div_mod_10_eq)
qed

lemma append_less:
  "length xs = length xs' \<Longrightarrow> (xs @ ys < xs' @ ys') = (xs < xs' \<or> xs = xs' \<and> ys < ys')"
  for xs :: string
  by (induction xs xs' rule: list_induct2) auto

lemma length_pad2: "length (pad2 n) = 2"
  by (simp add: pad2_def)

lemma pad4_less: "m < 10000 \<Longrightarrow> n < 10000 \<Longrightarrow> (pad4 m < pad4 n) = (m < n)"
proof -
  assume "m < 10000" "n < 10000"
  then have "m div 100 < 100" "n div 100 < 100" "m mod 100 < 100" "n mod 100 < 100" by simp_all
  then have "(pad4 m < pad4 n) =
      (m div 100 < n div 100 \<or> m div 100 = n div 100 \<and> m mod 100 < n mod 100)"
    by (simp add: pad4_def append_less length_pad2 pad2_less pad2_eq)
  then show ?thesis by (simp only: div_mod_100_less)
qed

lemma pad4_eq: "m < 10000 \<Longrightarrow> n < 10000 \<Longrightarrow> (pad4 m = pad4 n) = (m = n)"
proof -
  assume "m < 10000" "n < 10000"
  then have "m div 100 < 100" "n div 100 < 100" "m mod 100 < 100" "n mod 100 < 100" by simp_all
  then have "(pad4 m = pad4 n) = (m div 100 = n div 100 \<and> m mod 100 = n mod 100)"
    by (simp add: pad4_def length_pad2 pad2_eq)
  then show ?thesis by (simp only: div_mod_100_eq)
qed

lemma iso_date_less:
  assumes "y < 10000" "m < 100" "d < 100" "y' < 10000" "m' < 100" "d' < 100"
  shows "(iso_date y m d < iso_date y' m' d') = (y < y' \<or> y = y' \<and> (m < m' \<or> m = m' \<and> d < d'))"
proof -
  have l4: "length (pad4 y) = length (pad4 y')" by (simp add: pad4_def length_pad2)
  have l2: "length (pad2 m) = length (pad2 m')" by (simp add: length_pad2)
  show ?thesis
    unfolding iso_date_def
    using assms
    by (simp add: append_less [OF l4] append_less [OF l2] pad4_less pad4_eq pad2_less pad2_eq)
qed

lemma iso_date_example: "iso_date 2024 1 2 = ''2024-01-02''"
  by (simp add: iso_date_def pad4_def pad2_def digit_char_def)

subsection \<open>The rows of the report\<close>

lemma rows_fold: "foldl (\<lambda>rows d. rows @ f d) acc ds = acc @ concat (map f ds)"
  by (induction ds arbitrary: acc) simp_all

lemma sortedDates_eq:
  "sortedDates (dailyTotals (sessionsByDate u)) = rev (sort (first_seen (map date (sessions u))))"
  by (simp add: sortedDates_def Map_keys_def dailyTotals_eq comp_def)

lemma tableRows_eq:
  "tableRows (sessionsByDate u) (dailyTotals (sessionsByDate u)) =
     concat (map (\<lambda>d. tableRow d (formatDuration (dailyTotal (sessions u) d))
                         (length (bucket (sessions u) d)))
               (sortedDates (dailyTotals (sessionsByDate u))))"
proof -
  have "map (\<lambda>d. tableRow d (formatDuration (or_zero (Map_get (dailyTotals (sessionsByDate u)) d)))
                   (case Map_get (sessionsByDate u) d of None \<Rightarrow> 0 | Some arr \<Rightarrow> length arr))
          (sortedDates (dailyTotals (sessionsByDate u)))
      = map (\<lambda>d. tableRow d (formatDuration (dailyTotal (sessions u) d))
                         (length (bucket (sessions u) d)))
          (sortedDates (dailyTotals (sessionsByDate u)))"
    by (rule map_cong [OF refl])
       (simp add: sortedDates_eq set_first_seen,
        simp add: Map_get_dailyTotals Map_get_sessionsByDate or_zero_Some)
  then show ?thesis
    unfolding tableRows_def Let_def rows_fold append_Nil by (rule arg_cong [where f = concat])
qed

lemma sort_first_seen: "sort (first_seen xs) = sort (remdups xs)" for xs :: "string list"
  by (rule sorted_distinct_set_unique) (simp_all add: distinct_first_seen set_first_seen)

text \<open>
  C6. The rows of the report follow the dates of the buckets sorted in descending
  lexicographic order (for dates written \<open>YYYY-MM-DD\<close> that is the descending chronological
  order); the row of a date is the table row whose three cells hold the date, its formatted
  daily total and the number of its sessions; and the line on top is \<open>formatDuration\<close> of
  \<open>totalTimeMs\<close>.
\<close>

theorem showUsageStats_rows:
  "Memento_get (globalState ext) ''usageData'' = Some u \<Longrightarrow>
     html_tableRows (showUsageStats ext) =
       concat
         (map (\<lambda>d. [CHR 0x0A] @ ''            <tr>'' @
                    [CHR 0x0A] @ ''                <td>'' @ d @ ''</td>'' @
                    [CHR 0x0A] @ ''                <td>'' @
                      formatDuration
                        (sum_list (map duration_or_0 (filter (\<lambda>s. date s = d) (sessions u)))) @
                      ''</td>'' @
                    [CHR 0x0A] @ ''                <td>'' @
                      number_to_string (int (length (filter (\<lambda>s. date s = d) (sessions u)))) @
                      ''</td>'' @
                    [CHR 0x0A] @ ''            </tr>'' @
                    [CHR 0x0A] @ ''        '')
            (rev (sort (remdups (map date (sessions u))))))
   \<and> sortedDates (dailyTotals (sessionsByDate u)) = rev (sort (remdups (map date (sessions u))))
   \<and> sorted_wrt (\<lambda>a b. b < a) (sortedDates (dailyTotals (sessionsByDate u)))
   \<and> set (sortedDates (dailyTotals (sessionsByDate u))) = date ` set (sessions u)
   \<and> html_totalUsage (showUsageStats ext) = formatDuration (totalTimeMs u)
   \<and> (y < 10000 \<and> m < 100 \<and> d < 100 \<and> y' < 10000 \<and> m' < 100 \<and> d' < 100 \<longrightarrow>
        (iso_date y m d < iso_date y' m' d') = (y < y' \<or> y = y' \<and> (m < m' \<or> m = m' \<and> d < d')))"
proof -
  assume "Memento_get (globalState ext) ''usageData'' = Some u"
  then have "html_tableRows (showUsageStats ext) = tableRows (sessionsByDate u) (dailyTotals (sessionsByDate u))"
    and "html_totalUsage (showUsageStats ext) = formatDuration (totalTimeMs u)"
    by (simp_all add: showUsageStats_def Let_def)
  moreover have dates: "sortedDates (dailyTotals (sessionsByDate u)) = rev (sort (remdups (map date (sessions u))))"
    by (simp add: sortedDates_eq sort_first_seen)
  moreover have "sorted_wrt (\<lambda>a b. b < a) (sortedDates (dailyTotals (sessionsByDate u)))"
    by (simp add: sortedDates_eq sorted_wrt_rev strict_sorted_iff distinct_first_seen)
  moreover have "set (sortedDates (dailyTotals (sessionsByDate u))) = date ` set (sessions u)"
    by (simp add: sortedDates_eq set_first_seen)
  moreover have "tableRows (sessionsByDate u) (dailyTotals (sessionsByDate u)) =
       concat
         (map (\<lambda>d. [CHR 0x0A] @ ''            <tr>'' @
                    [CHR 0x0A] @ ''                <td>'' @ d @ ''</td>'' @
                    [CHR 0x0A] @ ''                <td>'' @
                      formatDuration
                        (sum_list (map duration_or_0 (filter (\<lambda>s. date s = d) (sessions u)))) @
                      ''</td>'' @
                    [CHR 0x0A] @ ''                <td>'' @
                      number_to_string (int (length (filter (\<lambda>s. date s = d) (sessions u)))) @
                      ''</td>'' @
                    [CHR 0x0A] @ ''            </tr>'' @
                    [CHR 0x0A] @ ''        '')
            (rev (sort (remdups (map date (sessions u))))))"
    unfolding tableRows_eq dates by (simp add: tableRow_def dailyTotal_def bucket_def)
  ultimately show ?thesis
    by (simp add: iso_date_less)
qed

theorem showUsageStats_rows_witness:
  "Memento_get
     (globalState
       \<lparr>currentSession = None,
        globalState =
          \<lparr>stored = [''usageData'' \<mapsto>
             \<lparr>sessions =
                [\<lparr>startTime = 0, endTime = Some 1000, date = ''2024-01-01'', duration = Some 1000\<rparr>,
                 \<lparr>startTime = 90000000, endTime = Some 90002000, date = ''2024-01-02'', duration = Some 2000\<rparr>,
                 \<lparr>startTime = 5000, endTime = Some 7000, date = ''2024-01-01'', duration = Some 2000\<rparr>],
              totalTimeMs = 5000\<rparr>],
           updates = []\<rparr>\<rparr>)
     ''usageData''
     = Some \<lparr>sessions =
                [\<lparr>startTime = 0, endTime = Some 1000, date = ''2024-01-01'', duration = Some 1000\<rparr>,
                 \<lparr>startTime = 90000000, endTime = Some 90002000, date = ''2024-01-02'', duration = Some 2000\<rparr>,
                 \<lparr>startTime = 5000, endTime = Some 7000, date = ''2024-01-01'', duration = Some 2000\<rparr>],
              totalTimeMs = 5000\<rparr>
   \<and> showUsageStats
       \<lparr>currentSession = None,
        globalState =
          \<lparr>stored = [''usageData'' \<mapsto>
             \<lparr>sessions =
                [\<lparr>startTime = 0, endTime = Some 1000, date = ''2024-01-01'', duration = Some 1000\<rparr>,
                 \<lparr>startTime = 90000000, endTime = Some 90002000, date = ''2024-01-02'', duration = Some 2000\<rparr>,
                 \<lparr>startTime = 5000, endTime = Some 7000, date = ''2024-01-01'', duration = Some 2000\<rparr>],
              totalTimeMs = 5000\<rparr>],
           updates = []\<rparr>\<rparr>
     = \<lparr>html_totalUsage = ''0h 0m 5s'',
        html_tableRows =
          [CHR 0x0A] @ ''            <tr>'' @
          [CHR 0x0A] @ ''                <td>2024-01-02</td>'' @
          [CHR 0x0A] @ ''                <td>0h 0m 2s</td>'' @
          [CHR 0x0A] @ ''                <td>1</td>'' @
          [CHR 0x0A] @ ''            </tr>'' @
          [CHR 0x0A] @ ''        '' @
          [CHR 0x0A] @ ''            <tr>'' @
          [CHR 0x0A] @ ''                <td>2024-01-01</td>'' @
          [CHR 0x0A] @ ''                <td>0h 0m 3s</td>'' @
          [CHR 0x0A] @ ''                <td>2</td>'' @
          [CHR 0x0A] @ ''            </tr>'' @
          [CHR 0x0A] @ ''        '',
        script_dailyData = [(''2024-01-01'', 3000), (''2024-01-02'', 2000)]\<rparr>"
proof -
  let ?u = "\<lparr>sessions =
                [\<lparr>startTime = 0, endTime = Some 1000, date = ''2024-01-01'', duration = Some 1000\<rparr>,
                 \<lparr>startTime = 90000000, endTime = Some 90002000, date = ''2024-01-02'', duration = Some 2000\<rparr>,
                 \<lparr>startTime = 5000, endTime = Some 7000, date = ''2024-01-01'', duration = Some 2000\<rparr>],
              totalTimeMs = 5000\<rparr>"
  let ?ext = "\<lparr>currentSession = None,
        globalState = \<lparr>stored = [''usageData'' \<mapsto> ?u], updates = []\<rparr>\<rparr>"
  have stored: "Memento_get (globalState ?ext) ''usageData'' = Some ?u"
    by (simp add: Memento_get_def)
  have data: "script_dailyData (showUsageStats ?ext) = [(''2024-01-01'', 3000), (''2024-01-02'', 2000)]"
    by code_simp
  have rows:
    "concat
         (map (\<lambda>d. [CHR 0x0A] @ ''            <tr>'' @
                    [CHR 0x0A] @ ''                <td>'' @ d @ ''</td>'' @
                    [CHR 0x0A] @ ''                <td>'' @
                      formatDuration
                        (sum_list (map duration_or_0 (filter (\<lambda>s. date s = d) (sessions ?u)))) @
                      ''</td>'' @
                    [CHR 0x0A] @ ''                <td>'' @
                      number_to_string (int (length (filter (\<lambda>s. date s = d) (sessions ?u)))) @
                      ''</td>'' @
                    [CHR 0x0A] @ ''            </tr>'' @
                    [CHR 0x0A] @ ''        '')
            (rev (sort (remdups (map date (sessions ?u)))))) =
          [CHR 0x0A] @ ''            <tr>'' @
          [CHR 0x0A] @ ''                <td>2024-01-02</td>'' @
          [CHR 0x0A] @ ''                <td>0h 0m 2s</td>'' @
          [CHR 0x0A] @ ''                <td>1</td>'' @
          [CHR 0x0A] @ ''            </tr>'' @
          [CHR 0x0A] @ ''        '' @
          [CHR 0x0A] @ ''            <tr>'' @
          [CHR 0x0A] @ ''                <td>2024-01-01</td>'' @
          [CHR 0x0A] @ ''                <td>0h 0m 3s</td>'' @
          [CHR 0x0A] @ ''                <td>2</td>'' @
          [CHR 0x0A] @ ''            </tr>'' @
          [CHR 0x0A] @ ''        ''"
    by code_simp
  have top: "formatDuration (totalTimeMs ?u) = ''0h 0m 5s''"
    by code_simp
  from showUsageStats_rows [OF stored, of 0 0 0 0 0 0]
  have "html_tableRows (showUsageStats ?ext) =
       concat
         (map (\<lambda>d. [CHR 0x0A] @ ''            <tr>'' @
                    [CHR 0x0A] @ ''                <td>'' @ d @ ''</td>'' @
                    [CHR 0x0A] @ ''                <td>'' @
                      formatDuration
                        (sum_list (map duration_or_0 (filter (\<lambda>s. date s = d) (sessions ?u)))) @
                      ''</td>'' @
                    [CHR 0x0A] @ ''                <td>'' @
                      number_to_string (int (length (filter (\<lambda>s. date s = d) (sessions ?u)))) @
                      ''</td>'' @
                    [CHR 0x0A] @ ''            </tr>'' @
                    [CHR 0x0A] @ ''        '')
            (rev (sort (remdups (map date (sessions ?u))))))"
    and "html_totalUsage (showUsageStats ?ext) = formatDuration (totalTimeMs ?u)"
    by blast+
  then have "html_tableRows (showUsageStats ?ext) =
          [CHR 0x0A] @ ''            <tr>'' @
          [CHR 0x0A] @ ''                <td>2024-01-02</td>'' @
          [CHR 0x0A] @ ''                <td>0h 0m 2s</td>'' @
          [CHR 0x0A] @ ''                <td>1</td>'' @
          [CHR 0x0A] @ ''            </tr>'' @
          [CHR 0x0A] @ ''        '' @
          [CHR 0x0A] @ ''            <tr>'' @
          [CHR 0x0A] @ ''                <td>2024-01-01</td>'' @
          [CHR 0x0A] @ ''                <td>0h 0m 3s</td>'' @
          [CHR 0x0A] @ ''                <td>2</td>'' @
          [CHR 0x0A] @ ''            </tr>'' @
          [CHR 0x0A] @ ''        ''"
    and "html_totalUsage (showUsageStats ?ext) = ''0h 0m 5s''"
    by (simp_all only: rows top)
  with data have "showUsageStats ?ext =
      \<lparr>html_totalUsage = ''0h 0m 5s'',
        html_tableRows =
          [CHR 0x0A] @ ''            <tr>'' @
          [CHR 0x0A] @ ''                <td>2024-01-02</td>'' @
          [CHR 0x0A] @ ''                <td>0h 0m 2s</td>'' @
          [CHR 0x0A] @ ''                <td>1</td>'' @
          [CHR 0x0A] @ ''            </tr>'' @
          [CHR 0x0A] @ ''        '' @
          [CHR 0x0A] @ ''            <tr>'' @
          [CHR 0x0A] @ ''                <td>2024-01-01</td>'' @
          [CHR 0x0A] @ ''                <td>0h 0m 3s</td>'' @
          [CHR 0x0A] @ ''                <td>2</td>'' @
          [CHR 0x0A] @ ''            </tr>'' @
          [CHR 0x0A] @ ''        '',
        script_dailyData = [(''2024-01-01'', 3000), (''2024-01-02'', 2000)]\<rparr>"
    by (cases "showUsageStats ?ext") simp
  with stored show ?thesis by simp
qed

subsection \<open>The chart\<close>

lemma report_of_empty_log:
  "Memento_get (globalState ext) ''usageData'' = Some \<lparr>sessions = [], totalTimeMs = 0\<rparr>
     \<or> Memento_get (globalState ext) ''usageData'' = None \<Longrightarrow>
   showUsageStats ext =
     \<lparr>html_totalUsage = ''0h 0m 0s'', html_tableRows = [], script_dailyData = []\<rparr>"
  by (auto simp add: showUsageStats_def Let_def sessionsByDate_def dailyTotals_def tableRows_def
      sortedDates_def Map_keys_def formatDuration_def Math_floor_div_def js_rem_def
      number_to_string_small)

lemma length_renderChart: "length (renderChart percent dailyData) = length dailyData"
  by (simp add: renderChart_def)

text \<open>
  C7. For the empty log the report has no table row and its top line is \<open>0h 0m 0s\<close>; the
  script gets no entry and appends no bar. The height arithmetic is evaluated once for each
  bar, so here it is not evaluated at all, whatever it is: nothing is divided, by zero or
  otherwise. There being no bar, every bar of this chart has a height of zero.
\<close>

theorem showUsageStats_empty_log:
  "Memento_get (globalState ext) ''usageData'' = Some \<lparr>sessions = [], totalTimeMs = 0\<rparr> \<Longrightarrow>
     html_tableRows (showUsageStats ext) = []
   \<and> html_totalUsage (showUsageStats ext) = ''0h 0m 0s''
   \<and> script_dailyData (showUsageStats ext) = []
   \<and> renderChart percent (script_dailyData (showUsageStats ext)) = []
   \<and> length (renderChart percent (script_dailyData (showUsageStats ext))) = 0
   \<and> (\<forall>b \<in> set (renderChart percent (script_dailyData (showUsageStats ext))). style_height b = zero)"
  using report_of_empty_log [of ext] by (simp add: renderChart_def)

theorem showUsageStats_empty_log_witness:
  "Memento_get
     (globalState
       \<lparr>currentSession = None,
        globalState = \<lparr>stored = [''usageData'' \<mapsto> \<lparr>sessions = [], totalTimeMs = 0\<rparr>], updates = []\<rparr>\<rparr>)
     ''usageData'' = Some \<lparr>sessions = [], totalTimeMs = 0\<rparr>
   \<and> showUsageStats
       \<lparr>currentSession = None,
        globalState = \<lparr>stored = [''usageData'' \<mapsto> \<lparr>sessions = [], totalTimeMs = 0\<rparr>], updates = []\<rparr>\<rparr>
     = \<lparr>html_totalUsage = ''0h 0m 0s'', html_tableRows = [], script_dailyData = []\<rparr>
   \<and> renderChart (\<lambda>value maxValue. (value, maxValue))
       (script_dailyData
         (showUsageStats
           \<lparr>currentSession = None,
            globalState =
              \<lparr>stored = [''usageData'' \<mapsto> \<lparr>sessions = [], totalTimeMs = 0\<rparr>], updates = []\<rparr>\<rparr>))
     = []"
proof -
  let ?ext = "\<lparr>currentSession = None,
        globalState = \<lparr>stored = [''usageData'' \<mapsto> \<lparr>sessions = [], totalTimeMs = 0\<rparr>], updates = []\<rparr>\<rparr>"
  have stored: "Memento_get (globalState ?ext) ''usageData'' = Some \<lparr>sessions = [], totalTimeMs = 0\<rparr>"
    by (simp add: Memento_get_def)
  from showUsageStats_empty_log [OF stored, of "\<lambda>value maxValue. (value, maxValue)"]
  have "html_tableRows (showUsageStats ?ext) = []"
    and "html_totalUsage (showUsageStats ?ext) = ''0h 0m 0s''"
    and "script_dailyData (showUsageStats ?ext) = []"
    and "renderChart (\<lambda>value maxValue. (value, maxValue)) (script_dailyData (showUsageStats ?ext)) = []"
    by blast+
  then show ?thesis
    using stored by (cases "showUsageStats ?ext") simp
qed

text \<open>
  The chart of a log that is not empty, with the operands of the height arithmetic kept as
  they are handed over.
\<close>

lemma renderChart_example:
  "renderChart (\<lambda>value maxValue. (value, maxValue)) [(''2024-01-01'', 3000), (''2024-01-02'', 2000)]
     = [\<lparr>style_height = (3000, MaxOf 3000), style_left = 0, title = ''2024-01-01: 0h 0m 3s''\<rparr>,
        \<lparr>style_height = (2000, MaxOf 3000), style_left = 30, title = ''2024-01-02: 0h 0m 2s''\<rparr>]"
  by code_simp

text \<open>
  C8. When the store has nothing under the key of the usage data, \<open>saveSession\<close> and
  \<open>showUsageStats\<close> do what they do when the store holds the empty log: the first stores a
  log of the one session, the second gives the report of the empty log.
\<close>

theorem absent_usageData_is_empty_log:
  "Memento_get (globalState ext) ''usageData'' = None \<Longrightarrow>
     saveSession s (globalState ext) =
       saveSession s
         ((globalState ext)
            \<lparr>stored := (stored (globalState ext))(''usageData'' \<mapsto> \<lparr>sessions = [], totalTimeMs = 0\<rparr>)\<rparr>)
   \<and> Memento_get (saveSession s (globalState ext)) ''usageData'' =
       Some \<lparr>sessions = [s], totalTimeMs = duration_or_0 s\<rparr>
   \<and> showUsageStats ext =
       showUsageStats
         (ext\<lparr>globalState :=
               (globalState ext)
                 \<lparr>stored := (stored (globalState ext))(''usageData'' \<mapsto> \<lparr>sessions = [], totalTimeMs = 0\<rparr>)\<rparr>\<rparr>)
   \<and> showUsageStats ext =
       \<lparr>html_totalUsage = ''0h 0m 0s'', html_tableRows = [], script_dailyData = []\<rparr>"
proof -
  assume absent: "Memento_get (globalState ext) ''usageData'' = None"
  let ?g = "(globalState ext)
            \<lparr>stored := (stored (globalState ext))(''usageData'' \<mapsto> \<lparr>sessions = [], totalTimeMs = 0\<rparr>)\<rparr>"
  have "saveSession s (globalState ext) = saveSession s ?g"
    using absent by (simp add: saveSession_eq Memento_get_def Memento_update_def)
  moreover have "Memento_get (saveSession s (globalState ext)) ''usageData'' =
       Some \<lparr>sessions = [s], totalTimeMs = duration_or_0 s\<rparr>"
    using absent by (simp add: saveSession_eq Memento_get_update)
  moreover have "showUsageStats ext =
       \<lparr>html_totalUsage = ''0h 0m 0s'', html_tableRows = [], script_dailyData = []\<rparr>"
    using absent by (simp add: report_of_empty_log)
  moreover have "showUsageStats (ext\<lparr>globalState := ?g\<rparr>) =
       \<lparr>html_totalUsage = ''0h 0m 0s'', html_tableRows = [], script_dailyData = []\<rparr>"
    by (rule report_of_empty_log) (simp add: Memento_get_def)
  ultimately show ?thesis by simp
qed

theorem absent_usageData_is_empty_log_witness:
  "Memento_get (globalState \<lparr>currentSession = None, globalState = \<lparr>stored = Map.empty, updates = []\<rparr>\<rparr>)
     ''usageData'' = None
   \<and> saveSession
       \<lparr>startTime = 0, endTime = Some 5000, date = ''2024-01-01'', duration = Some 5000\<rparr>
       \<lparr>stored = Map.empty, updates = []\<rparr>
     = \<lparr>stored = [''usageData'' \<mapsto>
          \<lparr>sessions = [\<lparr>startTime = 0, endTime = Some 5000, date = ''2024-01-01'', duration = Some 5000\<rparr>],
           totalTimeMs = 5000\<rparr>],
        updates = [(''usageData'',
          \<lparr>sessions = [\<lparr>startTime = 0, endTime = Some 5000, date = ''2024-01-01'', duration = Some 5000\<rparr>],
           totalTimeMs = 5000\<rparr>)]\<rparr>
   \<and> showUsageStats \<lparr>currentSession = None, globalState = \<lparr>stored = Map.empty, updates = []\<rparr>\<rparr>
     = \<lparr>html_totalUsage = ''0h 0m 0s'', html_tableRows = [], script_dailyData = []\<rparr>"
proof -
  let ?ext = "\<lparr>currentSession = None, globalState = \<lparr>stored = Map.empty, updates = []\<rparr>\<rparr>"
  have absent: "Memento_get (globalState ?ext) ''usageData'' = None"
    by (simp add: Memento_get_def)
  from absent_usageData_is_empty_log
    [OF absent, of "\<lparr>startTime = 0, endTime = Some 5000, date = ''2024-01-01'', duration = Some 5000\<rparr>"]
  have "showUsageStats ?ext =
      \<lparr>html_totalUsage = ''0h 0m 0s'', html_tableRows = [], script_dailyData = []\<rparr>"
    by blast
  with absent show ?thesis
    by (simp add: saveSession_eq Memento_get_def Memento_update_def duration_or_0_def)
qed

end
